theory Spec2Isabelle
  imports Complex_Main
begin

section \<open>Python objects, exceptions and the request\<close>

text \<open>
  The program is one Flask module, \<^verbatim>\<open>src/app.py\<close>, with two JSON endpoints:
  \<^verbatim>\<open>POST /calculate\<close> and \<^verbatim>\<open>GET /health\<close>. The handler works on Python objects: what
  \<^verbatim>\<open>request.get_json()\<close> decodes, what \<^verbatim>\<open>eval\<close> returns and what \<^verbatim>\<open>jsonify\<close> serialises.

  A Python float is an IEEE-754 double. It is modelled by its numeric value: a rational
  (the doubles are rationals), the two infinities or NaN. The two zeros \<open>0.0\<close> and
  \<open>-0.0\<close> are one value here: they are equal for Python's \<^verbatim>\<open>==\<close> and differ only in the
  sign that is printed.
\<close>

datatype pyfloat = Finite rat | PosInf | NegInf | NaN

text \<open>
  The objects the handler can meet. A JSON document decodes to \<^verbatim>\<open>None\<close>, a bool, an
  int, a float, a str, a list or a dict with str keys (an association list, in the
  order of the document). \<^verbatim>\<open>eval\<close> of a whitelisted text can moreover return the empty
  tuple \<^verbatim>\<open>()\<close> (no other tuple can be written without a comma) and \<^verbatim>\<open>Ellipsis\<close>
  (written \<^verbatim>\<open>...\<close>). A str is a list of bytes: the whitelist is ASCII, and a character
  beyond ASCII is a run of bytes that are all outside it.
\<close>

datatype pyobj =
    PyNone
  | PyBool bool
  | PyInt int
  | PyFloat pyfloat
  | PyStr string
  | PyList "pyobj list"
  | PyDict "(string \<times> pyobj) list"
  | PyTuple
  | PyEllipsis

datatype exc_class = OverflowError | TypeError | AttributeError | OtherException

text \<open>
  An exception whose text the handler reads: its class (\<open>OtherException\<close> is any other
  subclass of \<^verbatim>\<open>Exception\<close>) and the text \<^verbatim>\<open>str(e)\<close> gives.
\<close>

datatype py_exc = Exc exc_class string

fun exc_str :: "py_exc \<Rightarrow> string" where
  "exc_str (Exc c m) = m"

text \<open>
  What a call of \<^verbatim>\<open>eval\<close> does, as the \<^verbatim>\<open>except\<close> clauses around it tell it apart: it
  returns an object, raises \<^verbatim>\<open>ZeroDivisionError\<close>, raises \<^verbatim>\<open>SyntaxError\<close> (the handler
  reads the text of neither), or raises any other exception.
\<close>

datatype eval_outcome =
  Returns pyobj | RaisesZeroDivisionError | RaisesSyntaxError | Raises py_exc

text \<open>
  A request to \<^verbatim>\<open>/calculate\<close> is what \<^verbatim>\<open>request.get_json()\<close> does with it: it raises
  (a body that is not JSON, a wrong content type) or returns the decoded document.
\<close>

datatype request = GetJsonRaises py_exc | GetJsonReturns pyobj

fun get_json :: "request \<Rightarrow> py_exc + pyobj" where
  "get_json (GetJsonRaises e) = Inl e"
| "get_json (GetJsonReturns data) = Inr data"

text \<open>A response: the JSON document handed to \<^verbatim>\<open>jsonify\<close> and the status code.\<close>

type_synonym response = "pyobj \<times> nat"

section \<open>The pieces of \<^verbatim>\<open>calculate\<close>\<close>

fun type_name :: "pyobj \<Rightarrow> string" where
  "type_name PyNone = ''NoneType''"
| "type_name (PyBool b) = ''bool''"
| "type_name (PyInt n) = ''int''"
| "type_name (PyFloat x) = ''float''"
| "type_name (PyStr s) = ''str''"
| "type_name (PyList xs) = ''list''"
| "type_name (PyDict kvs) = ''dict''"
| "type_name PyTuple = ''tuple''"
| "type_name PyEllipsis = ''ellipsis''"

text \<open>A name between single quotes, as Python's messages print a type.\<close>

definition quoted :: "string \<Rightarrow> string" where
  "quoted s = CHR 0x27 # s @ [CHR 0x27]"

text \<open>
  \<^verbatim>\<open>data.get(key, default)\<close>: only a dict has the method; on any other object the
  attribute lookup raises \<^verbatim>\<open>AttributeError\<close>.
\<close>

fun dict_get :: "pyobj \<Rightarrow> string \<Rightarrow> pyobj \<Rightarrow> py_exc + pyobj" where
  "dict_get (PyDict kvs) k d = Inr (case map_of kvs k of None \<Rightarrow> d | Some v \<Rightarrow> v)"
| "dict_get data k d =
     Inl (Exc AttributeError (quoted (type_name data) @ '' object has no attribute '' @ quoted ''get''))"

text \<open>Python's truth value, as \<^verbatim>\<open>not expression\<close> reads it.\<close>

fun truthy :: "pyobj \<Rightarrow> bool" where
  "truthy PyNone = False"
| "truthy (PyBool b) = b"
| "truthy (PyInt n) = (n \<noteq> 0)"
| "truthy (PyFloat x) = (x \<noteq> Finite 0)"
| "truthy (PyStr s) = (s \<noteq> [])"
| "truthy (PyList xs) = (xs \<noteq> [])"
| "truthy (PyDict kvs) = (kvs \<noteq> [])"
| "truthy PyTuple = False"
| "truthy PyEllipsis = True"

definition allowed_chars :: "char set" where
  "allowed_chars = set ''0123456789+-*/.() ''"

text \<open>
  \<^verbatim>\<open>c in allowed_chars\<close> for one item \<open>c\<close> of the iteration: the set hashes \<open>c\<close> first,
  which raises \<^verbatim>\<open>TypeError\<close> for a list or a dict; a hashable object is in the set
  only when it is a str of one whitelisted character.
\<close>

fun in_allowed_chars :: "pyobj \<Rightarrow> py_exc + bool" where
  "in_allowed_chars (PyStr s) = Inr (case s of [c] \<Rightarrow> c \<in> allowed_chars | _ \<Rightarrow> False)"
| "in_allowed_chars (PyList xs) = Inl (Exc TypeError (''unhashable type: '' @ quoted ''list''))"
| "in_allowed_chars (PyDict kvs) = Inl (Exc TypeError (''unhashable type: '' @ quoted ''dict''))"
| "in_allowed_chars x = Inr False"

text \<open>\<^verbatim>\<open>all(...)\<close> over the items: it stops at the first false item or the first exception.\<close>

fun all_in_allowed :: "pyobj list \<Rightarrow> py_exc + bool" where
  "all_in_allowed [] = Inr True"
| "all_in_allowed (x # xs) =
     (case in_allowed_chars x of
        Inl e \<Rightarrow> Inl e
      | Inr False \<Rightarrow> Inr False
      | Inr True \<Rightarrow> all_in_allowed xs)"

text \<open>
  \<^verbatim>\<open>all(c in allowed_chars for c in expression)\<close>: a str is iterated by character, a
  list by element, a dict by key; a number, a bool, \<^verbatim>\<open>None\<close> and \<^verbatim>\<open>Ellipsis\<close> are not
  iterable.
\<close>

fun all_allowed :: "pyobj \<Rightarrow> py_exc + bool" where
  "all_allowed (PyStr s) = all_in_allowed (map (\<lambda>c. PyStr [c]) s)"
| "all_allowed (PyList xs) = all_in_allowed xs"
| "all_allowed (PyDict kvs) = all_in_allowed (map (\<lambda>kv. PyStr (fst kv)) kvs)"
| "all_allowed PyTuple = Inr True"
| "all_allowed x = Inl (Exc TypeError (quoted (type_name x) @ '' object is not iterable''))"

text \<open>
  \<^verbatim>\<open>jsonify\<close>: every object above serialises but \<^verbatim>\<open>Ellipsis\<close>; a tuple is written as a
  list. (Flask's provider writes NaN as the token \<^verbatim>\<open>NaN\<close>, it does not refuse it.)
\<close>

fun serializable :: "pyobj \<Rightarrow> bool" where
  "serializable PyEllipsis = False"
| "serializable (PyList xs) = (\<forall>x \<in> set xs. serializable x)"
| "serializable (PyDict kvs) = (\<forall>kv \<in> set kvs. serializable (snd kv))"
| "serializable x = True"

fun as_json :: "pyobj \<Rightarrow> pyobj" where
  "as_json PyTuple = PyList []"
| "as_json (PyList xs) = PyList (map as_json xs)"
| "as_json (PyDict kvs) = PyDict (map (\<lambda>kv. (fst kv, as_json (snd kv))) kvs)"
| "as_json x = x"

definition jsonify :: "pyobj \<Rightarrow> py_exc + pyobj" where
  "jsonify x =
     (if serializable x then Inr (as_json x)
      else Inl (Exc TypeError ''Object of type ellipsis is not JSON serializable''))"

definition error_response :: "string \<Rightarrow> nat \<Rightarrow> response" where
  "error_response msg status = (PyDict [(''error'', PyStr msg)], status)"

text \<open>The outer \<^verbatim>\<open>except Exception as e\<close> of the handler.\<close>

definition server_error :: "py_exc \<Rightarrow> response" where
  "server_error e = error_response (''Server error: '' @ exc_str e) 500"

text \<open>\<^verbatim>\<open>isinstance(result, float) and (result == float('inf') or result == float('-inf'))\<close>\<close>

fun is_infinite_float :: "pyobj \<Rightarrow> bool" where
  "is_infinite_float (PyFloat x) = (x = PosInf \<or> x = NegInf)"
| "is_infinite_float v = False"

text \<open>
  The inner \<^verbatim>\<open>try\<close> block, from the outcome of \<^verbatim>\<open>eval(expression)\<close> on.
  \<^verbatim>\<open>jsonify({'result': result})\<close> stands inside the same \<^verbatim>\<open>try\<close>, so its
  \<^verbatim>\<open>TypeError\<close> is caught by the last \<^verbatim>\<open>except\<close> clause too.
\<close>

definition after_eval :: "eval_outcome \<Rightarrow> response" where
  "after_eval outcome =
     (case outcome of
        Returns result \<Rightarrow>
          if is_infinite_float result then error_response ''Division by zero'' 400
          else (case jsonify (PyDict [(''result'', result)]) of
                  Inl e \<Rightarrow> error_response (exc_str e) 400
                | Inr doc \<Rightarrow> (doc, 200))
      | RaisesZeroDivisionError \<Rightarrow> error_response ''Division by zero'' 400
      | RaisesSyntaxError \<Rightarrow> error_response ''Invalid expression syntax'' 400
      | Raises e \<Rightarrow> error_response (exc_str e) 400)"

section \<open>The handlers\<close>

text \<open>
  \<^verbatim>\<open>calculate\<close>, line by line. Python's built-in \<^verbatim>\<open>eval\<close> is the one thing the handler
  calls that is not in the file: it is the parameter \<open>ev\<close>, which maps the object
  passed to it to \<open>Some\<close> outcome, or to \<open>None\<close> when it gives no outcome. A property that holds for every \<open>ev\<close> does not depend on what \<^verbatim>\<open>eval\<close> does.
\<close>

definition calculate :: "(pyobj \<Rightarrow> eval_outcome option) \<Rightarrow> request \<Rightarrow> response option" where
  "calculate ev req =
     (case get_json req of
        Inl e \<Rightarrow> Some (server_error e)
      | Inr data \<Rightarrow>
          (case dict_get data ''expression'' (PyStr []) of
             Inl e \<Rightarrow> Some (server_error e)
           | Inr expression \<Rightarrow>
               if \<not> truthy expression then Some (error_response ''Empty expression'' 400)
               else
                 (case all_allowed expression of
                    Inl e \<Rightarrow> Some (server_error e)
                  | Inr ok \<Rightarrow>
                      if \<not> ok then Some (error_response ''Invalid characters in expression'' 400)
                      else map_option after_eval (ev expression))))"

definition health :: response where
  "health = (PyDict [(''status'', PyStr ''healthy'')], 200)"

text \<open>
  The two JSON routes. No handler reads or writes anything but its own request, so a
  run of requests is answered one by one.
\<close>

datatype http_request = PostCalculate request | GetHealth

fun route :: "(pyobj \<Rightarrow> eval_outcome option) \<Rightarrow> http_request \<Rightarrow> response option" where
  "route ev (PostCalculate req) = calculate ev req"
| "route ev GetHealth = Some health"

definition serve :: "(pyobj \<Rightarrow> eval_outcome option) \<Rightarrow> http_request list \<Rightarrow> response option list" where
  "serve ev reqs = map (route ev) reqs"

text \<open>The request \<^verbatim>\<open>{"expression": s}\<close>.\<close>

definition post_expression :: "string \<Rightarrow> request" where
  "post_expression s = GetJsonReturns (PyDict [(''expression'', PyStr s)])"

definition has_field :: "string \<Rightarrow> response \<Rightarrow> bool" where
  "has_field k r = (case fst r of PyDict kvs \<Rightarrow> k \<in> set (map fst kvs) | _ \<Rightarrow> False)"

section \<open>Facts about the pieces\<close>

lemma all_in_allowed_chars:
  "all_in_allowed (map (\<lambda>c. PyStr [c]) s) = Inr (\<forall>c \<in> set s. c \<in> allowed_chars)"
  by (induction s) (auto split: bool.splits)

lemma all_allowed_str: "all_allowed (PyStr s) = Inr (set s \<subseteq> allowed_chars)"
  by (auto simp: all_in_allowed_chars)

lemma has_field_error_response [simp]:
  "has_field k (error_response m st) = (k = ''error'')"
  by (auto simp: has_field_def error_response_def)

lemma snd_error_response [simp]: "snd (error_response m st) = st"
  by (simp add: error_response_def)

lemma has_field_result_doc [simp]:
  "has_field k (PyDict [(''result'', v)], st) = (k = ''result'')"
  by (auto simp: has_field_def)

lemma has_field_after_eval:
  "has_field ''result'' (after_eval out) \<noteq> has_field ''error'' (after_eval out)"
  by (auto simp: after_eval_def jsonify_def split: eval_outcome.splits)

lemma status_after_eval:
  "(snd (after_eval out) = 200) = has_field ''result'' (after_eval out)"
  by (auto simp: after_eval_def jsonify_def split: eval_outcome.splits)

lemma calculate_str:
  assumes "map_of kvs ''expression'' = Some (PyStr s)" and "s \<noteq> []"
  shows "calculate ev (GetJsonReturns (PyDict kvs)) =
           (if set s \<subseteq> allowed_chars then map_option after_eval (ev (PyStr s))
            else Some (error_response ''Invalid characters in expression'' 400))"
  using assms by (simp add: calculate_def all_allowed_str del: all_allowed.simps)

lemma calculate_post_expression:
  "calculate ev (post_expression s) =
     (if s = [] then Some (error_response ''Empty expression'' 400)
      else if set s \<subseteq> allowed_chars then map_option after_eval (ev (PyStr s))
      else Some (error_response ''Invalid characters in expression'' 400))"
  by (simp add: calculate_def post_expression_def all_allowed_str del: all_allowed.simps)

section \<open>The claims about the handler\<close>

text \<open>
  C1. A request whose expression is a text with at least one character outside the
  whitelist is answered with status 400 and the error \<^verbatim>\<open>Invalid characters in expression\<close>,
  and the expression is never evaluated: the answer is the same for every behaviour
  \<open>ev\<close> of \<^verbatim>\<open>eval\<close>, also for one that gives no outcome at all on any input.
\<close>

theorem invalid_characters_rejected:
  assumes "map_of kvs ''expression'' = Some (PyStr s)"
    and "\<exists>c \<in> set s. c \<notin> allowed_chars"
  shows "calculate ev (GetJsonReturns (PyDict kvs)) =
           Some (error_response ''Invalid characters in expression'' 400)
         \<and> calculate (\<lambda>x. None) (GetJsonReturns (PyDict kvs)) =
           Some (error_response ''Invalid characters in expression'' 400)"
proof -
  from assms(2) have ne: "s \<noteq> []" and bad: "\<not> set s \<subseteq> allowed_chars"
    by auto
  show ?thesis
    using calculate_str [OF assms(1) ne] bad by simp
qed

theorem invalid_characters_rejected_witness:
  "calculate (\<lambda>x. Some (Returns (PyInt 4))) (GetJsonReturns (PyDict [(''expression'', PyStr ''2+a'')])) =
     Some (PyDict [(''error'', PyStr ''Invalid characters in expression'')], 400)"
proof -
  have 1: "map_of [(''expression'', PyStr ''2+a'')] ''expression'' = Some (PyStr ''2+a'')"
    by simp
  have 2: "\<exists>c \<in> set ''2+a''. c \<notin> allowed_chars"
    by (simp add: allowed_chars_def)
  show ?thesis
    using invalid_characters_rejected [OF 1 2, of "\<lambda>x. Some (Returns (PyInt 4))"]
    by (simp add: error_response_def)
qed

text \<open>
  C6. The payload of every answer of \<^verbatim>\<open>/calculate\<close> has exactly one of the fields
  \<^verbatim>\<open>result\<close> and \<^verbatim>\<open>error\<close>: a success (status 200) has \<^verbatim>\<open>result\<close> and no \<^verbatim>\<open>error\<close>, a
  failure (any other status) has \<^verbatim>\<open>error\<close> and no \<^verbatim>\<open>result\<close>. This holds for every
  request and every behaviour of \<^verbatim>\<open>eval\<close>; and the handler answers whenever \<^verbatim>\<open>eval\<close>
  gives an outcome.
\<close>

theorem exactly_one_of_result_and_error:
  "(calculate ev req = None \<longrightarrow> (\<exists>x. ev x = None)) \<and>
   (\<forall>r. calculate ev req = Some r \<longrightarrow>
      (has_field ''result'' r \<noteq> has_field ''error'' r) \<and>
      (snd r = 200 \<longrightarrow> has_field ''result'' r \<and> \<not> has_field ''error'' r) \<and>
      (snd r \<noteq> 200 \<longrightarrow> has_field ''error'' r \<and> \<not> has_field ''result'' r))"
proof -
  have "calculate ev req = None \<Longrightarrow> \<exists>x. ev x = None"
    by (auto simp: calculate_def split: sum.splits if_splits)
  moreover have "has_field ''result'' r \<noteq> has_field ''error'' r \<and> (snd r = 200) = has_field ''result'' r"
    if "calculate ev req = Some r" for r
    using that has_field_after_eval status_after_eval
    by (auto simp: calculate_def server_error_def split: sum.splits if_splits)
  ultimately show ?thesis
    by blast
qed

text \<open>
  C9. \<^verbatim>\<open>GET /health\<close> is answered with status 200 and the payload
  \<^verbatim>\<open>{"status": "healthy"}\<close>, whatever requests came before it: the handler takes no input
  and has no other answer.
\<close>

theorem health_always_healthy:
  "health = (PyDict [(''status'', PyStr ''healthy'')], 200) \<and>
   route ev GetHealth = Some health \<and>
   serve ev (earlier @ [GetHealth]) = serve ev earlier @ [Some health]"
  by (simp add: health_def serve_def)

theorem health_always_healthy_witness:
  "serve (\<lambda>x. None) [PostCalculate (post_expression ''1+''), GetHealth] =
     [None, Some (PyDict [(''status'', PyStr ''healthy'')], 200)]"
  using health_always_healthy [of "\<lambda>x. None" "[PostCalculate (post_expression ''1+'')]"]
  by (simp add: serve_def calculate_post_expression allowed_chars_def)



text \<open>
  C10, as the code has it. When the body is a JSON object and the value of
  \<^verbatim>\<open>expression\<close> is a number other than zero or \<^verbatim>\<open>true\<close>, the whitelist check cannot
  iterate it and the answer is status 500 with a \<^verbatim>\<open>Server error: \<close> message; when the
  value is falsy (\<^verbatim>\<open>0\<close>, \<^verbatim>\<open>0.0\<close>, \<^verbatim>\<open>false\<close>, \<^verbatim>\<open>null\<close>, an empty list or object, the empty
  text) the answer is status 400 with \<^verbatim>\<open>Empty expression\<close>. A non-empty list is iterated:
  when its first element is hashable and not a whitelisted character the answer is
  status 400 with \<^verbatim>\<open>Invalid characters in expression\<close>.
\<close>

theorem non_string_expression:
  assumes "map_of kvs ''expression'' = Some x"
  shows "(x \<in> {PyInt n, PyFloat f, PyBool True} \<and> truthy x \<longrightarrow>
            calculate ev (GetJsonReturns (PyDict kvs)) =
              Some (PyDict [(''error'', PyStr (''Server error: '' @ quoted (type_name x) @
                                               '' object is not iterable''))], 500)) \<and>
         (\<not> truthy x \<longrightarrow>
            calculate ev (GetJsonReturns (PyDict kvs)) =
              Some (PyDict [(''error'', PyStr ''Empty expression'')], 400)) \<and>
         (x = PyList (y # ys) \<and> in_allowed_chars y = Inr False \<longrightarrow>
            calculate ev (GetJsonReturns (PyDict kvs)) =
              Some (PyDict [(''error'', PyStr ''Invalid characters in expression'')], 400))"
  using assms by (auto simp: calculate_def server_error_def error_response_def)

theorem non_string_expression_witness:
  "calculate (\<lambda>x. None) (GetJsonReturns (PyDict [(''expression'', PyInt 123)])) =
     Some (PyDict [(''error'', PyStr (''Server error: '' @ quoted ''int'' @ '' object is not iterable''))], 500) \<and>
   calculate (\<lambda>x. None) (GetJsonReturns (PyDict [(''expression'', PyNone)])) =
     Some (PyDict [(''error'', PyStr ''Empty expression'')], 400)"
proof -
  have 1: "map_of [(''expression'', PyInt 123)] ''expression'' = Some (PyInt 123)"
    by simp
  have 2: "map_of [(''expression'', PyNone)] ''expression'' = Some PyNone"
    by simp
  show ?thesis
    using non_string_expression [OF 1, of 123 "Finite 1" "\<lambda>x. None"]
      non_string_expression [OF 2, of 0 "Finite 1" "\<lambda>x. None"]
    by simp
qed

text \<open>
  The claim C10 as stated fails for a list: the expression \<^verbatim>\<open>[1]\<close> is truthy and not a
  text, and the answer is status 400, not 500.
\<close>

theorem truthy_list_not_server_error:
  "truthy (PyList [PyInt 1]) \<and>
   calculate (\<lambda>x. None) (GetJsonReturns (PyDict [(''expression'', PyList [PyInt 1])])) =
     Some (PyDict [(''error'', PyStr ''Invalid characters in expression'')], 400)"
  by (simp add: calculate_def error_response_def)

theorem exactly_one_of_result_and_error_witness:
  "calculate (\<lambda>x. Some (Returns PyEllipsis)) (post_expression ''...'') =
     Some (PyDict [(''error'', PyStr ''Object of type ellipsis is not JSON serializable'')], 400) \<and>
   has_field ''error'' (PyDict [(''error'', PyStr ''Object of type ellipsis is not JSON serializable'')], 400) \<and>
   \<not> has_field ''result'' (PyDict [(''error'', PyStr ''Object of type ellipsis is not JSON serializable'')], 400)"
proof -
  have c: "calculate (\<lambda>x. Some (Returns PyEllipsis)) (post_expression ''...'') =
     Some (PyDict [(''error'', PyStr ''Object of type ellipsis is not JSON serializable'')], 400)"
    by (simp add: calculate_post_expression allowed_chars_def after_eval_def jsonify_def
        error_response_def)
  show ?thesis
    using exactly_one_of_result_and_error [of "\<lambda>x. Some (Returns PyEllipsis)" "post_expression ''...''"] c
    by simp
qed

end
